theory Spec2Isabelle
  imports Complex_Main
begin

section \<open>JavaScript values used by the arbitrage engine\<close>

subsection \<open>Numbers\<close>

text \<open>
  A JavaScript \<^verbatim>\<open>number\<close> is either finite or one of the three special values that
  division by zero and overflow produce. Finite values are exact rationals here: the
  binary rounding of IEEE-754 \<^verbatim>\<open>+ - * /\<close> is not part of the model, and neither is the
  sign of zero. Everything else follows the language: arithmetic on the special values,
  comparisons that are false on \<^verbatim>\<open>NaN\<close>, division by zero that yields \<^verbatim>\<open>Infinity\<close>
  or \<^verbatim>\<open>NaN\<close> instead of raising.
\<close>

datatype number = Fin rat | PosInfinity | NegInfinity | NaN

fun num_neg :: "number \<Rightarrow> number" where
  "num_neg (Fin a) = Fin (- a)"
| "num_neg PosInfinity = NegInfinity"
| "num_neg NegInfinity = PosInfinity"
| "num_neg NaN = NaN"

fun num_add :: "number \<Rightarrow> number \<Rightarrow> number" where
  "num_add (Fin a) (Fin b) = Fin (a + b)"
| "num_add NaN y = NaN"
| "num_add x NaN = NaN"
| "num_add PosInfinity NegInfinity = NaN"
| "num_add NegInfinity PosInfinity = NaN"
| "num_add PosInfinity y = PosInfinity"
| "num_add NegInfinity y = NegInfinity"
| "num_add (Fin a) y = y"

definition num_sub :: "number \<Rightarrow> number \<Rightarrow> number" where
  "num_sub x y = num_add x (num_neg y)"

fun num_sign :: "number \<Rightarrow> int" where
  "num_sign (Fin a) = (if a < 0 then - 1 else if a = 0 then 0 else 1)"
| "num_sign PosInfinity = 1"
| "num_sign NegInfinity = - 1"
| "num_sign NaN = 0"

definition signed_infinity :: "int \<Rightarrow> number" where
  "signed_infinity s = (if s = 0 then NaN else if 0 < s then PosInfinity else NegInfinity)"

fun num_mul :: "number \<Rightarrow> number \<Rightarrow> number" where
  "num_mul (Fin a) (Fin b) = Fin (a * b)"
| "num_mul NaN y = NaN"
| "num_mul x NaN = NaN"
| "num_mul x y = signed_infinity (num_sign x * num_sign y)"

fun num_div :: "number \<Rightarrow> number \<Rightarrow> number" where
  "num_div (Fin a) (Fin b) = (if b = 0 then signed_infinity (num_sign (Fin a)) else Fin (a / b))"
| "num_div NaN y = NaN"
| "num_div x NaN = NaN"
| "num_div (Fin a) y = Fin 0"
| "num_div PosInfinity (Fin b) = (if b < 0 then NegInfinity else PosInfinity)"
| "num_div NegInfinity (Fin b) = (if b < 0 then PosInfinity else NegInfinity)"
| "num_div x y = NaN"

fun num_lt :: "number \<Rightarrow> number \<Rightarrow> bool" where
  "num_lt (Fin a) (Fin b) = (a < b)"
| "num_lt NaN y = False"
| "num_lt x NaN = False"
| "num_lt x PosInfinity = (x \<noteq> PosInfinity)"
| "num_lt NegInfinity y = (y \<noteq> NegInfinity)"
| "num_lt x y = False"

definition num_gt :: "number \<Rightarrow> number \<Rightarrow> bool" where
  "num_gt x y = num_lt y x"

definition num_ge :: "number \<Rightarrow> number \<Rightarrow> bool" where
  "num_ge x y = (x \<noteq> NaN \<and> y \<noteq> NaN \<and> \<not> num_lt x y)"


subsection \<open>Rounding\<close>

text \<open>
  \<^verbatim>\<open>x.toFixed(d)\<close> followed by \<^verbatim>\<open>parseFloat\<close>: a finite \<open>x\<close> below \<open>10^21\<close> in
  magnitude is rounded to \<open>d\<close> decimals, a tie going away from zero; a larger one is
  printed in full and read back unchanged, and so are the special values.
\<close>

definition round_half_away :: "nat \<Rightarrow> rat \<Rightarrow> rat" where
  "round_half_away d x =
     (if x < 0 then - (of_int \<lfloor>- x * 10 ^ d + 1 / 2\<rfloor> / 10 ^ d)
      else of_int \<lfloor>x * 10 ^ d + 1 / 2\<rfloor> / 10 ^ d)"

fun toFixed_parseFloat :: "nat \<Rightarrow> number \<Rightarrow> number" where
  "toFixed_parseFloat d (Fin x) = (if 10 ^ 21 \<le> \<bar>x\<bar> then Fin x else Fin (round_half_away d x))"
| "toFixed_parseFloat d x = x"

text \<open>
  Modelled from the spec: \<^verbatim>\<open>roundTo4\<close> and \<^verbatim>\<open>roundTo2\<close> are imported by
  \<^verbatim>\<open>core.ts\<close> from \<^verbatim>\<open>./utils\<close>, whose source does not define them. The specification
  says that probabilities and the total are rounded to 4 decimal places and percentages
  and stakes to 2; the model rounds to the nearest multiple of \<open>10^-d\<close>, a tie going
  up as \<^verbatim>\<open>Math.round\<close> does, and leaves the special values as they are.
\<close>

definition round_half_up :: "nat \<Rightarrow> rat \<Rightarrow> rat" where
  "round_half_up d x = of_int \<lfloor>x * 10 ^ d + 1 / 2\<rfloor> / 10 ^ d"

fun roundTo :: "nat \<Rightarrow> number \<Rightarrow> number" where
  "roundTo d (Fin x) = Fin (round_half_up d x)"
| "roundTo d x = x"

definition roundTo4 :: "number \<Rightarrow> number" where
  "roundTo4 = roundTo 4"

definition roundTo2 :: "number \<Rightarrow> number" where
  "roundTo2 = roundTo 2"

subsection \<open>Objects, sets and arrays\<close>

text \<open>
  A plain object is the list of its own properties in creation order, keys distinct.
  \<^verbatim>\<open>Object.keys\<close>, \<^verbatim>\<open>Object.entries\<close> and \<^verbatim>\<open>Object.values\<close> visit the keys that
  are array indices first, in ascending numeric order, and the other keys after them in
  creation order. An array index is a canonical decimal numeral below \<open>2^32 - 1\<close>.
\<close>

definition digit_value :: "char \<Rightarrow> int" where
  "digit_value c = of_char c - 48"

definition is_digit :: "char \<Rightarrow> bool" where
  "is_digit c = (48 \<le> (of_char c :: int) \<and> (of_char c :: int) \<le> 57)"

definition index_value :: "string \<Rightarrow> int" where
  "index_value k = foldl (\<lambda>n c. 10 * n + digit_value c) 0 k"

definition is_array_index :: "string \<Rightarrow> bool" where
  "is_array_index k =
     (k \<noteq> [] \<and> list_all is_digit k \<and> (length k = 1 \<or> hd k \<noteq> CHR ''0'')
      \<and> index_value k < 4294967295)"

definition entries :: "(string \<times> 'a) list \<Rightarrow> (string \<times> 'a) list" where
  "entries obj =
     sort_key (\<lambda>kv. index_value (fst kv)) (filter (\<lambda>kv. is_array_index (fst kv)) obj)
     @ filter (\<lambda>kv. \<not> is_array_index (fst kv)) obj"

definition keys :: "(string \<times> 'a) list \<Rightarrow> string list" where
  "keys obj = map fst (entries obj)"

definition get_prop :: "(string \<times> 'a) list \<Rightarrow> string \<Rightarrow> 'a option" where
  "get_prop obj k = map_of obj k"

definition set_prop :: "(string \<times> 'a) list \<Rightarrow> string \<Rightarrow> 'a \<Rightarrow> (string \<times> 'a) list" where
  "set_prop obj k v =
     (if k \<in> fst ` set obj then map (\<lambda>kv. if fst kv = k then (k, v) else kv) obj
      else obj @ [(k, v)])"

text \<open>A \<^verbatim>\<open>Set\<close> keeps its members in insertion order; adding a member twice changes nothing.\<close>

definition set_add :: "'a \<Rightarrow> 'a list \<Rightarrow> 'a list" where
  "set_add x s = (if x \<in> set s then s else s @ [x])"

text \<open>
  \<^verbatim>\<open>Array.prototype.sort\<close> with a comparator is stable: \<open>a\<close> stays in front of a later
  \<open>b\<close> unless the comparator is positive on \<open>(a, b)\<close>; a \<^verbatim>\<open>NaN\<close> from the comparator
  counts as zero.
\<close>

fun insert_by :: "('a \<Rightarrow> 'a \<Rightarrow> number) \<Rightarrow> 'a \<Rightarrow> 'a list \<Rightarrow> 'a list" where
  "insert_by cmp x [] = [x]"
| "insert_by cmp x (y # ys) =
     (if num_gt (cmp x y) (Fin 0) then y # insert_by cmp x ys else x # y # ys)"

definition sort_by :: "('a \<Rightarrow> 'a \<Rightarrow> number) \<Rightarrow> 'a list \<Rightarrow> 'a list" where
  "sort_by cmp xs = foldr (insert_by cmp) xs []"

subsection \<open>Errors\<close>

text \<open>
  Reading a property of \<^verbatim>\<open>undefined\<close> raises a \<^verbatim>\<open>TypeError\<close>; \<^verbatim>\<open>throw new Error(m)\<close>
  raises an \<^verbatim>\<open>Error\<close> with message \<open>m\<close>. Both carry their message.
\<close>

datatype error = TypeError string | Error string

fun message :: "error \<Rightarrow> string" where
  "message (TypeError m) = m"
| "message (Error m) = m"

fun forEach :: "'a list \<Rightarrow> ('a \<Rightarrow> 's \<Rightarrow> error + 's) \<Rightarrow> 's \<Rightarrow> error + 's" where
  "forEach [] f s = Inr s"
| "forEach (x # xs) f s = (case f x s of Inl e \<Rightarrow> Inl e | Inr s' \<Rightarrow> forEach xs f s')"

section \<open>The data model of \<^verbatim>\<open>types.ts\<close>\<close>

text \<open>The fields that no function of the engine reads are left out of the records.\<close>

record Player =
  active :: bool
  price :: number

record Outcome =
  players :: "(string \<times> Player) list"

record Market =
  outcomes :: "(string \<times> Outcome) list"

record Bookmaker =
  bookmakerIsActive :: bool
  markets :: "(string \<times> Market) list"

record OddsData =
  fixtureId :: string
  participant1Name :: string
  participant2Name :: string
  sportName :: string
  tournamentName :: string
  bookmakerOdds :: "(string \<times> Bookmaker) list"

record OddsOption =
  bookmaker :: string
  odds :: number

text \<open>
  \<^verbatim>\<open>outcomeId\<close> is \<open>None\<close> where the code stores \<^verbatim>\<open>undefined\<close>, which an
  out-of-range read of \<^verbatim>\<open>outcomeIds[i]\<close> yields in \<^verbatim>\<open>evaluateCombinations\<close>.
\<close>

record Bet =
  outcomeId :: "string option"
  bookmaker :: string
  betPercentage :: number
  requiredStake :: number

record Selection =
  outcomeId :: "string option"
  bookmaker :: string
  odds :: number
  impliedProbability :: number

record ArbitrageOpportunity =
  market :: string
  outcomes :: "Selection list"
  totalImpliedProbability :: number
  arbitragePercentage :: number
  betDistribution :: "Bet list"

record Fixture =
  fixtureId :: string
  participant1 :: string
  participant2 :: string
  tournament :: string
  sport :: string

record Analysis =
  analyzedMarkets :: nat
  totalActiveBookmakers :: nat
  totalOpportunities :: nat
  opportunities :: "ArbitrageOpportunity list"

record ArbitrageAnalysisResult =
  fixture :: Fixture
  analysis :: Analysis
  timestamp :: string

text \<open>
  Modelled from the spec: the declaration of \<^verbatim>\<open>AnalyzeOptions\<close> is not in
  \<^verbatim>\<open>types.ts\<close>. Its four fields are the ones \<^verbatim>\<open>analyzeMarketTopK\<close> destructures;
  \<open>K\<close> and \<open>maxResults\<close> are integers.
\<close>

record AnalyzeOptions =
  topk :: int
  maxResults :: int
  verbose :: bool
  includeBetDistribution :: bool

section \<open>The odds catalogue (\<^verbatim>\<open>core.ts\<close>)\<close>

definition getActiveBookmakers :: "OddsData \<Rightarrow> string list" where
  "getActiveBookmakers oddsData =
     map fst (filter (\<lambda>(name, bookmaker'). bookmakerIsActive bookmaker')
       (entries (bookmakerOdds oddsData)))"

text \<open>
  \<^verbatim>\<open>oddsData.bookmakerOdds[bookmakerName]\<close> is \<^verbatim>\<open>undefined\<close> for a name that is not a
  key, and reading \<^verbatim>\<open>.markets\<close> of it raises; the message is the one Node.js gives.
\<close>

definition undefined_markets :: error where
  "undefined_markets = TypeError ''Cannot read properties of undefined (reading 'markets')''"

definition getAllMarkets :: "OddsData \<Rightarrow> string list \<Rightarrow> error + string list" where
  "getAllMarkets oddsData activeBookmakers =
     forEach activeBookmakers
       (\<lambda>bookmakerName allMarkets.
          case get_prop (bookmakerOdds oddsData) bookmakerName of
            None \<Rightarrow> Inl undefined_markets
          | Some bookmaker' \<Rightarrow> Inr (fold set_add (keys (markets bookmaker')) allMarkets))
       []"

definition getMarketOutcomes :: "string \<Rightarrow> OddsData \<Rightarrow> string list \<Rightarrow> error + string list" where
  "getMarketOutcomes marketId oddsData activeBookmakers =
     forEach activeBookmakers
       (\<lambda>bookmakerName marketOutcomes.
          case get_prop (bookmakerOdds oddsData) bookmakerName of
            None \<Rightarrow> Inl undefined_markets
          | Some bookmaker' \<Rightarrow>
              (case get_prop (markets bookmaker') marketId of
                 None \<Rightarrow> Inr marketOutcomes
               | Some market' \<Rightarrow>
                   Inr (fold set_add (keys (Market.outcomes market')) marketOutcomes)))
       []"

text \<open>
  The quote a bookmaker gives for an outcome of a market: the player in slot \<^verbatim>\<open>"0"\<close>.
  \<^verbatim>\<open>findBestOdds\<close> reaches it with \<^verbatim>\<open>market && market.outcomes[outcomeId]\<close> and
  \<^verbatim>\<open>outcome.players["0"]\<close>, \<^verbatim>\<open>buildTopOutcomeOddsMap\<close> with
  \<^verbatim>\<open>market?.outcomes[outcomeId]?.players["0"]\<close>; a missing market, outcome or player
  gives \<open>None\<close>, an unknown bookmaker raises.
\<close>

definition player0 :: "OddsData \<Rightarrow> string \<Rightarrow> string \<Rightarrow> string \<Rightarrow> error + Player option" where
  "player0 oddsData bookmakerName marketId outcomeId' =
     (case get_prop (bookmakerOdds oddsData) bookmakerName of
        None \<Rightarrow> Inl undefined_markets
      | Some bookmaker' \<Rightarrow>
          (case get_prop (markets bookmaker') marketId of
             None \<Rightarrow> Inr None
           | Some market' \<Rightarrow>
               (case get_prop (Market.outcomes market') outcomeId' of
                  None \<Rightarrow> Inr None
                | Some outcome \<Rightarrow> Inr (get_prop (players outcome) ''0''))))"

section \<open>Single-best mode\<close>

definition findBestOdds ::
  "string \<Rightarrow> string list \<Rightarrow> OddsData \<Rightarrow> string list \<Rightarrow> error + (string \<times> OddsOption) list" where
  "findBestOdds marketId marketOutcomes oddsData activeBookmakers =
     forEach marketOutcomes
       (\<lambda>outcomeId' bestOdds.
          case forEach activeBookmakers
                 (\<lambda>bookmakerName (bestOdd, bestBookmaker).
                    case player0 oddsData bookmakerName marketId outcomeId' of
                      Inl e \<Rightarrow> Inl e
                    | Inr None \<Rightarrow> Inr (bestOdd, bestBookmaker)
                    | Inr (Some player) \<Rightarrow>
                        if active player \<and> num_gt (price player) bestOdd
                        then Inr (price player, bookmakerName)
                        else Inr (bestOdd, bestBookmaker))
                 (Fin 0, []) of
            Inl e \<Rightarrow> Inl e
          | Inr (bestOdd, bestBookmaker) \<Rightarrow>
              if bestBookmaker \<noteq> []
              then Inr (set_prop bestOdds outcomeId'
                     \<lparr>OddsOption.bookmaker = bestBookmaker, odds = bestOdd\<rparr>)
              else Inr bestOdds)
       []"

definition calculateArbitrageForMarket ::
  "string \<Rightarrow> (string \<times> OddsOption) list \<Rightarrow> ArbitrageOpportunity option" where
  "calculateArbitrageForMarket marketId bestOdds =
     (let impliedProbabilities =
            map (\<lambda>(outcomeId', data).
                   \<lparr>Selection.outcomeId = Some outcomeId',
                    bookmaker = OddsOption.bookmaker data,
                    odds = OddsOption.odds data,
                    impliedProbability = roundTo4 (num_div (Fin 1) (OddsOption.odds data))\<rparr>)
                (entries bestOdds);
          totalImpliedProbability =
            roundTo4 (foldl (\<lambda>sum item. num_add sum (impliedProbability item)) (Fin 0)
                       impliedProbabilities)
      in if num_ge totalImpliedProbability (Fin 1) then None
         else
           let arbitragePercentage =
                 roundTo2 (num_mul
                   (num_div (num_sub (Fin 1) totalImpliedProbability) totalImpliedProbability)
                   (Fin 100));
               betDistribution =
                 map (\<lambda>item.
                        let betPercentage =
                              roundTo2 (num_mul
                                (num_div (impliedProbability item) totalImpliedProbability)
                                (Fin 100))
                        in \<lparr>Bet.outcomeId = Selection.outcomeId item,
                            bookmaker = Selection.bookmaker item,
                            betPercentage = betPercentage,
                            requiredStake = betPercentage\<rparr>)
                     impliedProbabilities
           in Some \<lparr>market = marketId,
                    outcomes = impliedProbabilities,
                    totalImpliedProbability = totalImpliedProbability,
                    arbitragePercentage = arbitragePercentage,
                    betDistribution = betDistribution\<rparr>)"

text \<open>\<^verbatim>\<open>verbose\<close> only prints to the console: it is left out of \<^verbatim>\<open>analyzeMarket\<close>.\<close>

definition analyzeMarket ::
  "string \<Rightarrow> OddsData \<Rightarrow> string list \<Rightarrow> error + ArbitrageOpportunity option" where
  "analyzeMarket marketId oddsData activeBookmakers =
     (case getMarketOutcomes marketId oddsData activeBookmakers of
        Inl e \<Rightarrow> Inl e
      | Inr marketOutcomes \<Rightarrow>
          if length marketOutcomes < 2 then Inr None
          else
            (case findBestOdds marketId marketOutcomes oddsData activeBookmakers of
               Inl e \<Rightarrow> Inl e
             | Inr bestOdds \<Rightarrow>
                 if length (keys bestOdds) \<noteq> length marketOutcomes then Inr None
                 else Inr (calculateArbitrageForMarket marketId bestOdds)))"

section \<open>Top-K mode\<close>

text \<open>\<^verbatim>\<open>xs.slice(0, k)\<close> for an integer \<open>k\<close>: a negative \<open>k\<close> counts from the end.\<close>

definition slice0 :: "int \<Rightarrow> 'a list \<Rightarrow> 'a list" where
  "slice0 k xs = (if k < 0 then take (nat (int (length xs) + k)) xs else take (nat k) xs)"

definition buildTopOutcomeOddsMap ::
  "string \<Rightarrow> OddsData \<Rightarrow> string list \<Rightarrow> int \<Rightarrow> error + (string \<times> OddsOption list) list" where
  "buildTopOutcomeOddsMap marketId oddsData activeBookmakers topK =
     (case getMarketOutcomes marketId oddsData activeBookmakers of
        Inl e \<Rightarrow> Inl e
      | Inr marketOutcomes \<Rightarrow>
          forEach marketOutcomes
            (\<lambda>outcomeId' outcomesOdds.
               case forEach activeBookmakers
                      (\<lambda>bookmakerName allOdds.
                         case player0 oddsData bookmakerName marketId outcomeId' of
                           Inl e \<Rightarrow> Inl e
                         | Inr None \<Rightarrow> Inr allOdds
                         | Inr (Some player) \<Rightarrow>
                             if active player \<and> num_gt (price player) (Fin 1)
                             then Inr (allOdds @
                                    [\<lparr>OddsOption.bookmaker = bookmakerName, odds = price player\<rparr>])
                             else Inr allOdds)
                      [] of
                 Inl e \<Rightarrow> Inl e
               | Inr allOdds \<Rightarrow>
                   Inr (set_prop outcomesOdds outcomeId'
                          (slice0 topK
                             (sort_by (\<lambda>a b. num_sub (OddsOption.odds b) (OddsOption.odds a))
                                allOdds))))
            [])"

definition generateCombinations :: "'a list list \<Rightarrow> number \<Rightarrow> 'a list list" where
  "generateCombinations arrays maxCombinations =
     (let totalCombinations = foldl (\<lambda>acc curr. acc * length curr) 1 arrays
      in if num_gt (Fin (of_nat totalCombinations)) maxCombinations then []
         else foldl (\<lambda>acc curr. concat (map (\<lambda>a. map (\<lambda>b. a @ [b]) curr) acc)) [[]] arrays)"

text \<open>\<^verbatim>\<open>outcomeIds[i]\<close>: \<^verbatim>\<open>undefined\<close> beyond the end of the array.\<close>

definition at_index :: "'a list \<Rightarrow> nat \<Rightarrow> 'a option" where
  "at_index xs i = (if i < length xs then Some (xs ! i) else None)"

definition evaluateCombination ::
  "string \<Rightarrow> string list \<Rightarrow> bool \<Rightarrow> OddsOption list \<Rightarrow> ArbitrageOpportunity option" where
  "evaluateCombination marketId outcomeIds includeBetDistribution' combo =
     (let impliedSum =
            foldl (\<lambda>sum option. num_add sum (num_div (Fin 1) (OddsOption.odds option))) (Fin 0)
              combo
      in if num_lt impliedSum (Fin 1) then
           let arbitragePercentage' =
                 num_mul (num_div (num_sub (Fin 1) impliedSum) impliedSum) (Fin 100);
               outcomes' =
                 map (\<lambda>(option, i).
                        \<lparr>Selection.outcomeId = at_index outcomeIds i,
                         bookmaker = OddsOption.bookmaker option,
                         odds = OddsOption.odds option,
                         impliedProbability =
                           toFixed_parseFloat 4 (num_div (Fin 1) (OddsOption.odds option))\<rparr>)
                     (zip combo [0 ..< length combo]);
               betDistribution' =
                 (if includeBetDistribution' then
                    map (\<lambda>item.
                           \<lparr>Bet.outcomeId = Selection.outcomeId item,
                            bookmaker = Selection.bookmaker item,
                            betPercentage =
                              toFixed_parseFloat 2
                                (num_mul (num_div (impliedProbability item) impliedSum) (Fin 100)),
                            requiredStake =
                              toFixed_parseFloat 2
                                (num_mul (num_div (impliedProbability item) impliedSum) (Fin 100))\<rparr>)
                        outcomes'
                  else [])
           in Some \<lparr>market = marketId,
                    outcomes = outcomes',
                    totalImpliedProbability = toFixed_parseFloat 4 impliedSum,
                    arbitragePercentage = toFixed_parseFloat 2 arbitragePercentage',
                    betDistribution = betDistribution'\<rparr>
         else None)"

text \<open>
  The loop of \<^verbatim>\<open>evaluateCombinations\<close> pushes the opportunity of each combination
  that has one, in the order of the combinations; \<open>evaluateCombination\<close> is its body.
\<close>

definition evaluateCombinations ::
  "string \<Rightarrow> string list \<Rightarrow> OddsOption list list \<Rightarrow> bool \<Rightarrow> ArbitrageOpportunity list" where
  "evaluateCombinations marketId outcomeIds combos includeBetDistribution' =
     foldl (\<lambda>opportunities' combo.
              case evaluateCombination marketId outcomeIds includeBetDistribution' combo of
                None \<Rightarrow> opportunities'
              | Some opportunity \<Rightarrow> opportunities' @ [opportunity])
       [] combos"

text \<open>\<^verbatim>\<open>v || d\<close> on an integer: zero is falsy.\<close>

definition or_default :: "int \<Rightarrow> int \<Rightarrow> int" where
  "or_default v d = (if v = 0 then d else v)"

text \<open>
  \<^verbatim>\<open>outcomeOdds[oId]\<close> would be \<^verbatim>\<open>undefined\<close> for a key the object lacks, and
  \<^verbatim>\<open>generateCombinations\<close> would raise on reading its \<^verbatim>\<open>.length\<close>.
\<close>

definition undefined_length :: error where
  "undefined_length = TypeError ''Cannot read properties of undefined (reading 'length')''"

definition analyzeMarketTopK ::
  "string \<Rightarrow> OddsData \<Rightarrow> string list \<Rightarrow> AnalyzeOptions \<Rightarrow> error + ArbitrageOpportunity list" where
  "analyzeMarketTopK marketId oddsData activeBookmakers options =
     (let topk' = min (max (or_default (topk options) 3) 1) 3;
          maxResults' = min (max (or_default (maxResults options) 5) 1) 5
      in case buildTopOutcomeOddsMap marketId oddsData activeBookmakers topk' of
           Inl e \<Rightarrow> Inl e
         | Inr outcomeOdds \<Rightarrow>
             let outcomeIds = keys outcomeOdds
             in (case those (map (get_prop outcomeOdds) outcomeIds) of
                   None \<Rightarrow> Inl undefined_length
                 | Some oddsArrays \<Rightarrow>
                     let allCombinations = generateCombinations oddsArrays (Fin 10000);
                         opportunities' =
                           evaluateCombinations marketId outcomeIds allCombinations
                             (includeBetDistribution options);
                         sorted' =
                           sort_by (\<lambda>a b. num_sub (arbitragePercentage b) (arbitragePercentage a))
                             opportunities'
                     in Inr (slice0 maxResults' sorted')))"

section \<open>The whole analysis\<close>

text \<open>
  \<^verbatim>\<open>calculateArbitrage\<close> after \<^verbatim>\<open>loadOddsData\<close> has returned the snapshot: loading and
  printing are outside the model, and the clock reading is the parameter \<open>now\<close>. The
  \<^verbatim>\<open>catch\<close> clause wraps whatever the body raises.
\<close>

definition no_bookmaker_odds :: error where
  "no_bookmaker_odds =
     Error ''No bookmaker odds data available. The fixture may have finished or not started yet.''"

definition calculation_failed :: "error \<Rightarrow> error" where
  "calculation_failed e = Error (''Arbitrage calculation failed: '' @ message e)"

definition result_of ::
  "OddsData \<Rightarrow> string list \<Rightarrow> string list \<Rightarrow> ArbitrageOpportunity list \<Rightarrow> string
   \<Rightarrow> ArbitrageAnalysisResult" where
  "result_of oddsData allMarkets activeBookmakers arbitrageOpportunities now =
     \<lparr>fixture =
        \<lparr>Fixture.fixtureId = OddsData.fixtureId oddsData,
         participant1 = participant1Name oddsData,
         participant2 = participant2Name oddsData,
         tournament = tournamentName oddsData,
         sport = sportName oddsData\<rparr>,
      analysis =
        \<lparr>analyzedMarkets = length allMarkets,
         totalActiveBookmakers = length activeBookmakers,
         totalOpportunities = length arbitrageOpportunities,
         opportunities = arbitrageOpportunities\<rparr>,
      timestamp = now\<rparr>"

text \<open>The variant of \<^verbatim>\<open>index.ts\<close>: single-best mode only.\<close>

definition calculateArbitrage_body :: "OddsData \<Rightarrow> string \<Rightarrow> error + ArbitrageAnalysisResult" where
  "calculateArbitrage_body oddsData now =
     (if length (keys (bookmakerOdds oddsData)) = 0 then Inl no_bookmaker_odds
      else
        let activeBookmakers = getActiveBookmakers oddsData
        in case getAllMarkets oddsData activeBookmakers of
             Inl e \<Rightarrow> Inl e
           | Inr allMarkets \<Rightarrow>
               (case forEach allMarkets
                       (\<lambda>marketId arbitrageOpportunities.
                          case analyzeMarket marketId oddsData activeBookmakers of
                            Inl e \<Rightarrow> Inl e
                          | Inr None \<Rightarrow> Inr arbitrageOpportunities
                          | Inr (Some opportunity) \<Rightarrow> Inr (arbitrageOpportunities @ [opportunity]))
                       [] of
                  Inl e \<Rightarrow> Inl e
                | Inr arbitrageOpportunities \<Rightarrow>
                    Inr (result_of oddsData allMarkets activeBookmakers arbitrageOpportunities now)))"

definition calculateArbitrage :: "OddsData \<Rightarrow> string \<Rightarrow> error + ArbitrageAnalysisResult" where
  "calculateArbitrage oddsData now =
     (case calculateArbitrage_body oddsData now of
        Inl e \<Rightarrow> Inl (calculation_failed e)
      | Inr result \<Rightarrow> Inr result)"

text \<open>
  The variant with the \<^verbatim>\<open>topk\<close> parameter (the second entry point of the repository):
  top-K mode when \<^verbatim>\<open>topk\<close> is supplied and greater than 1, single-best mode otherwise.
\<close>

definition calculateArbitrageTopK_body ::
  "OddsData \<Rightarrow> int option \<Rightarrow> string \<Rightarrow> error + ArbitrageAnalysisResult" where
  "calculateArbitrageTopK_body oddsData topk' now =
     (if length (keys (bookmakerOdds oddsData)) = 0 then Inl no_bookmaker_odds
      else
        let activeBookmakers = getActiveBookmakers oddsData
        in case getAllMarkets oddsData activeBookmakers of
             Inl e \<Rightarrow> Inl e
           | Inr allMarkets \<Rightarrow>
               (case (if (case topk' of None \<Rightarrow> False | Some k \<Rightarrow> k \<noteq> 0 \<and> 1 < k) then
                        forEach allMarkets
                          (\<lambda>marketId arbitrageOpportunities.
                             case analyzeMarketTopK marketId oddsData activeBookmakers
                                    \<lparr>topk = or_default (case topk' of None \<Rightarrow> 0 | Some k \<Rightarrow> k) 3,
                                     maxResults = 20,
                                     verbose = True,
                                     includeBetDistribution = True\<rparr> of
                               Inl e \<Rightarrow> Inl e
                             | Inr opportunity \<Rightarrow>
                                 if 0 < length opportunity
                                 then Inr (arbitrageOpportunities @ opportunity)
                                 else Inr arbitrageOpportunities)
                          []
                      else
                        forEach allMarkets
                          (\<lambda>marketId arbitrageOpportunities.
                             case analyzeMarket marketId oddsData activeBookmakers of
                               Inl e \<Rightarrow> Inl e
                             | Inr None \<Rightarrow> Inr arbitrageOpportunities
                             | Inr (Some opportunity) \<Rightarrow>
                                 Inr (arbitrageOpportunities @ [opportunity]))
                          []) of
                  Inl e \<Rightarrow> Inl e
                | Inr arbitrageOpportunities \<Rightarrow>
                    Inr (result_of oddsData allMarkets activeBookmakers arbitrageOpportunities now)))"

definition calculateArbitrageTopK ::
  "OddsData \<Rightarrow> int option \<Rightarrow> string \<Rightarrow> error + ArbitrageAnalysisResult" where
  "calculateArbitrageTopK oddsData topk' now =
     (case calculateArbitrageTopK_body oddsData topk' now of
        Inl e \<Rightarrow> Inl (calculation_failed e)
      | Inr result \<Rightarrow> Inr result)"

section \<open>The earlier single-best evaluator\<close>

text \<open>
  The repository holds an earlier \<^verbatim>\<open>core.ts\<close> whose \<^verbatim>\<open>calculateArbitrageForMarket\<close>
  rounds nothing: the implied probabilities, their total, the percentage and the stakes
  are reported as computed, and the total is compared with 1 unrounded.
\<close>

definition calculateArbitrageForMarket_unrounded ::
  "string \<Rightarrow> (string \<times> OddsOption) list \<Rightarrow> ArbitrageOpportunity option" where
  "calculateArbitrageForMarket_unrounded marketId bestOdds =
     (let impliedProbabilities =
            map (\<lambda>(outcomeId', data).
                   \<lparr>Selection.outcomeId = Some outcomeId',
                    bookmaker = OddsOption.bookmaker data,
                    odds = OddsOption.odds data,
                    impliedProbability = num_div (Fin 1) (OddsOption.odds data)\<rparr>)
                (entries bestOdds);
          totalImpliedProbability =
            foldl (\<lambda>sum item. num_add sum (impliedProbability item)) (Fin 0)
              impliedProbabilities
      in if num_ge totalImpliedProbability (Fin 1) then None
         else
           let arbitragePercentage =
                 num_mul
                   (num_div (num_sub (Fin 1) totalImpliedProbability) totalImpliedProbability)
                   (Fin 100);
               betDistribution =
                 map (\<lambda>item.
                        let betPercentage =
                              num_mul
                                (num_div (impliedProbability item) totalImpliedProbability)
                                (Fin 100)
                        in \<lparr>Bet.outcomeId = Selection.outcomeId item,
                            bookmaker = Selection.bookmaker item,
                            betPercentage = betPercentage,
                            requiredStake = betPercentage\<rparr>)
                     impliedProbabilities
           in Some \<lparr>market = marketId,
                    outcomes = impliedProbabilities,
                    totalImpliedProbability = totalImpliedProbability,
                    arbitragePercentage = arbitragePercentage,
                    betDistribution = betDistribution\<rparr>)"

section \<open>Quantities and predicates of the specification\<close>

text \<open>
  The implied probability of a price is its reciprocal, and the total implied probability
  of a selection is the sum of the implied probabilities of its prices.
\<close>

definition implied_total :: "number list \<Rightarrow> number" where
  "implied_total prices = foldl (\<lambda>sum p. num_add sum (num_div (Fin 1) p)) (Fin 0) prices"

text \<open>The number of assignments of a full cross product: the product of the list sizes.\<close>

definition combination_count :: "'a list list \<Rightarrow> nat" where
  "combination_count arrays = prod_list (map length arrays)"




fun rat_of :: "number \<Rightarrow> rat" where
  "rat_of (Fin a) = a"
| "rat_of x = 0"

text \<open>A price is positive and finite.\<close>

fun positive_finite :: "number \<Rightarrow> bool" where
  "positive_finite (Fin p) = (0 < p)"
| "positive_finite x = False"

text \<open>
  A selected offer stems from an active quote: the bookmaker it names quotes that price,
  with \<^verbatim>\<open>active = true\<close>, for the outcome of the market.
\<close>

definition from_active_quote :: "OddsData \<Rightarrow> string \<Rightarrow> string \<Rightarrow> OddsOption \<Rightarrow> bool" where
  "from_active_quote oddsData marketId outcomeId' selected =
     (case player0 oddsData (OddsOption.bookmaker selected) marketId outcomeId' of
        Inr (Some player) \<Rightarrow> active player \<and> price player = OddsOption.odds selected
      | _ \<Rightarrow> False)"

section \<open>Example snapshots\<close>

text \<open>
  The fixture of the repository's unit tests, with a given bookmaker mapping, and an
  outcome that carries a single quote in player slot \<^verbatim>\<open>"0"\<close>.
\<close>

definition snapshot :: "(string \<times> Bookmaker) list \<Rightarrow> OddsData" where
  "snapshot bookmakers =
     \<lparr>OddsData.fixtureId = ''test_fixture_123'',
      participant1Name = ''Team A'',
      participant2Name = ''Team B'',
      sportName = ''Soccer'',
      tournamentName = ''Test League'',
      bookmakerOdds = bookmakers\<rparr>"

definition quote :: "bool \<Rightarrow> rat \<Rightarrow> Outcome" where
  "quote a p = \<lparr>players = [(''0'', \<lparr>active = a, price = Fin p\<rparr>)]\<rparr>"

definition offer :: "string \<Rightarrow> rat \<Rightarrow> OddsOption" where
  "offer b p = \<lparr>OddsOption.bookmaker = b, odds = Fin p\<rparr>"

text \<open>One active bookmaker, one market, one outcome priced 1.5 (the unit tests' single-outcome data).\<close>

definition single_outcome_snapshot :: OddsData where
  "single_outcome_snapshot =
     snapshot [(''bookmaker1'',
       \<lparr>bookmakerIsActive = True,
        markets = [(''101'', \<lparr>Market.outcomes = [(''101'', quote True (3 / 2))]\<rparr>)]\<rparr>)]"

text \<open>One active bookmaker whose market 101 lists no outcome.\<close>

definition empty_market_snapshot :: OddsData where
  "empty_market_snapshot =
     snapshot [(''bookmaker1'',
       \<lparr>bookmakerIsActive = True, markets = [(''101'', \<lparr>Market.outcomes = []\<rparr>)]\<rparr>)]"

text \<open>Two active bookmakers quoting 2.2 and 2.1 on both outcomes of market 101.\<close>

definition two_bookmaker_snapshot :: OddsData where
  "two_bookmaker_snapshot =
     snapshot
       [(''bookmaker1'',
         \<lparr>bookmakerIsActive = True,
          markets = [(''101'', \<lparr>Market.outcomes =
            [(''101'', quote True (22 / 10)), (''102'', quote True (22 / 10))]\<rparr>)]\<rparr>),
        (''bookmaker2'',
         \<lparr>bookmakerIsActive = True,
          markets = [(''101'', \<lparr>Market.outcomes =
            [(''101'', quote True (21 / 10)), (''102'', quote True (21 / 10))]\<rparr>)]\<rparr>)]"

text \<open>One active bookmaker quoting 0.5 and 3.0 on the two outcomes of market 101.\<close>

definition low_price_snapshot :: OddsData where
  "low_price_snapshot =
     snapshot [(''bookmaker1'',
       \<lparr>bookmakerIsActive = True,
        markets = [(''101'', \<lparr>Market.outcomes =
          [(''101'', quote True (1 / 2)), (''102'', quote True 3)]\<rparr>)]\<rparr>)]"

text \<open>A snapshot whose bookmaker mapping is empty.\<close>

definition no_bookmaker_snapshot :: OddsData where
  "no_bookmaker_snapshot = snapshot []"

text \<open>The edge case of the repository's test script: a single inactive bookmaker.\<close>

definition inactive_snapshot :: OddsData where
  "inactive_snapshot =
     snapshot [(''inactive_bookmaker'', \<lparr>bookmakerIsActive = False, markets = []\<rparr>)]"

text \<open>An active bookmaker that carries no market.\<close>

definition no_market_snapshot :: OddsData where
  "no_market_snapshot =
     snapshot [(''bookmaker1'', \<lparr>bookmakerIsActive = True, markets = []\<rparr>)]"

text \<open>The options that \<^verbatim>\<open>analyzeMarketTopK\<close> takes by default.\<close>

definition default_options :: AnalyzeOptions where
  "default_options = \<lparr>topk = 3, maxResults = 5, verbose = False, includeBetDistribution = False\<rparr>"

section \<open>Example selections and opportunities\<close>


text \<open>The opportunity of the two-bookmaker snapshot in single-best mode.\<close>

definition single_best_example :: ArbitrageOpportunity where
  "single_best_example =
     \<lparr>market = ''101'',
      outcomes =
        [\<lparr>Selection.outcomeId = Some ''101'', bookmaker = ''bookmaker1'',
          odds = Fin (11 / 5), impliedProbability = Fin (909 / 2000)\<rparr>,
         \<lparr>Selection.outcomeId = Some ''102'', bookmaker = ''bookmaker1'',
          odds = Fin (11 / 5), impliedProbability = Fin (909 / 2000)\<rparr>],
      totalImpliedProbability = Fin (909 / 1000),
      arbitragePercentage = Fin (1001 / 100),
      betDistribution =
        [\<lparr>Bet.outcomeId = Some ''101'', bookmaker = ''bookmaker1'',
          betPercentage = Fin 50, requiredStake = Fin 50\<rparr>,
         \<lparr>Bet.outcomeId = Some ''102'', bookmaker = ''bookmaker1'',
          betPercentage = Fin 50, requiredStake = Fin 50\<rparr>]\<rparr>"

text \<open>Best-odds mappings of a market: 2.2 on two outcomes, 3 on two, 2.9999 on three.\<close>

definition selection_22 :: "(string \<times> OddsOption) list" where
  "selection_22 =
     [(''101'', offer ''bookmaker1'' (11 / 5)), (''102'', offer ''bookmaker1'' (11 / 5))]"


definition selection_near_one :: "(string \<times> OddsOption) list" where
  "selection_near_one =
     [(''101'', offer ''bookmaker1'' (29999 / 10000)),
      (''102'', offer ''bookmaker1'' (29999 / 10000)),
      (''103'', offer ''bookmaker1'' (29999 / 10000))]"

text \<open>A best-odds mapping priced 1.5 on two outcomes: no arbitrage.\<close>

definition selection_15 :: "(string \<times> OddsOption) list" where
  "selection_15 =
     [(''101'', offer ''bookmaker1'' (3 / 2)), (''102'', offer ''bookmaker2'' (3 / 2))]"

text \<open>What the earlier evaluator reports for 2.2 on two outcomes.\<close>

definition unrounded_example :: ArbitrageOpportunity where
  "unrounded_example =
     \<lparr>market = ''101'',
      outcomes =
        [\<lparr>Selection.outcomeId = Some ''101'', bookmaker = ''bookmaker1'',
          odds = Fin (11 / 5), impliedProbability = Fin (5 / 11)\<rparr>,
         \<lparr>Selection.outcomeId = Some ''102'', bookmaker = ''bookmaker1'',
          odds = Fin (11 / 5), impliedProbability = Fin (5 / 11)\<rparr>],
      totalImpliedProbability = Fin (10 / 11),
      arbitragePercentage = Fin 10,
      betDistribution =
        [\<lparr>Bet.outcomeId = Some ''101'', bookmaker = ''bookmaker1'',
          betPercentage = Fin 50, requiredStake = Fin 50\<rparr>,
         \<lparr>Bet.outcomeId = Some ''102'', bookmaker = ''bookmaker1'',
          betPercentage = Fin 50, requiredStake = Fin 50\<rparr>]\<rparr>"





section \<open>The combination generator\<close>

lemma foldl_sizes:
  "foldl (\<lambda>acc curr. acc * length curr) a arrays = a * prod_list (map length arrays)"
  by (induction arrays arbitrary: a) (simp_all add: mult.assoc)

lemma map_append_Nil: "map (\<lambda>t. [] @ t) xs = xs"
  by (induction xs) simp_all

lemma foldl_cross:
  "foldl (\<lambda>acc curr. concat (map (\<lambda>a. map (\<lambda>b. a @ [b]) curr) acc)) acc arrays =
   concat (map (\<lambda>a. map (\<lambda>t. a @ t) (product_lists arrays)) acc)"
proof (induction arrays arbitrary: acc)
  case Nil
  show ?case by (induction acc) simp_all
next
  case (Cons curr arrays)
  have "concat (map (\<lambda>a. map (\<lambda>t. a @ t) (product_lists arrays))
          (concat (map (\<lambda>a. map (\<lambda>b. a @ [b]) curr) acc))) =
        concat (map (\<lambda>a. map (\<lambda>t. a @ t) (product_lists (curr # arrays))) acc)"
  proof (induction acc)
    case Nil
    show ?case by simp
  next
    case (Cons a acc)
    have "concat (map (\<lambda>a. map (\<lambda>t. a @ t) (product_lists arrays)) (map (\<lambda>b. a @ [b]) curr)) =
          map (\<lambda>t. a @ t) (concat (map (\<lambda>x. map (Cons x) (product_lists arrays)) curr))"
      by (induction curr) simp_all
    with Cons show ?case by simp
  qed
  with Cons.IH show ?case by simp
qed

lemma length_product_lists: "length (product_lists xss) = prod_list (map length xss)"
  by (induction xss) (simp_all add: length_concat comp_def sum_list_triv)

lemma generateCombinations_eq:
  "generateCombinations arrays maxCombinations =
     (if num_gt (Fin (of_nat (combination_count arrays))) maxCombinations then []
      else product_lists arrays)"
  by (simp add: generateCombinations_def combination_count_def foldl_sizes foldl_cross
      map_append_Nil)

text \<open>
  C4, as amended. \<^verbatim>\<open>generateCombinations\<close> aborts only when the product of the list
  sizes is greater than the cap: it returns no assignment then, and otherwise (the
  product below the cap or equal to it) the full cross product in lexicographic order,
  whose length is that product.
\<close>

theorem generateCombinations_cross_product:
  "generateCombinations arrays maxCombinations =
     (if num_gt (Fin (of_nat (combination_count arrays))) maxCombinations then []
      else product_lists arrays)
   \<and> length (product_lists arrays) = combination_count arrays"
  by (simp add: generateCombinations_eq length_product_lists combination_count_def)

theorem generateCombinations_cross_product_witness:
  "generateCombinations [[1::nat, 2], [3, 4, 5]] (Fin 6) =
     [[1, 3], [1, 4], [1, 5], [2, 3], [2, 4], [2, 5]]
   \<and> generateCombinations [[1::nat, 2], [3, 4, 5]] (Fin 5) = []"
  using generateCombinations_cross_product [of "[[1::nat, 2], [3, 4, 5]]" "Fin 6"]
    generateCombinations_cross_product [of "[[1::nat, 2], [3, 4, 5]]" "Fin 5"]
  by (simp add: combination_count_def num_gt_def)

text \<open>
  The claim as stated fails where the product equals the cap: two lists of sizes 2 and 3
  under a cap of 6 are enumerated in full.
\<close>

theorem generateCombinations_at_cap_counterexample:
  "num_ge (Fin (of_nat (combination_count [[1::nat, 2], [3, 4, 5]]))) (Fin 6)
   \<and> length (generateCombinations [[1::nat, 2], [3, 4, 5]] (Fin 6)) = 6"
  by (simp add: generateCombinations_eq combination_count_def num_gt_def num_ge_def)

section \<open>Objects and loops\<close>

lemma floor_numeral_div_rat [simp]:
  "\<lfloor>(numeral a :: rat) / numeral b\<rfloor> = numeral a div numeral b"
  using floor_divide_of_int_eq [of "numeral a" "numeral b", where ?'a = rat] by simp

lemma floor_one_div_rat [simp]: "\<lfloor>(1 :: rat) / numeral b\<rfloor> = 1 div numeral b"
  using floor_divide_of_int_eq [of 1 "numeral b", where ?'a = rat] by simp

lemma entries_Nil [simp]: "entries [] = []"
  by (simp add: entries_def)

lemma keys_Nil [simp]: "keys [] = []"
  by (simp add: keys_def)

lemma set_entries [simp]: "set (entries obj) = set obj"
  by (auto simp: entries_def)

lemma length_entries [simp]: "length (entries obj) = length obj"
  by (simp add: entries_def sum_length_filter_compl)

lemma length_keys [simp]: "length (keys obj) = length obj"
  by (simp add: keys_def)

lemma forEach_unchanged:
  "(\<And>x. x \<in> set xs \<Longrightarrow> f x s = Inr s) \<Longrightarrow> forEach xs f s = Inr s"
  by (induction xs) simp_all

lemma get_prop_member:
  assumes "k \<in> fst ` set obj"
  obtains v where "get_prop obj k = Some v" and "(k, v) \<in> set obj"
proof -
  from assms have "map_of obj k \<noteq> None"
    by (simp add: map_of_eq_None_iff)
  then obtain v where "map_of obj k = Some v"
    by blast
  then show thesis
    using that map_of_SomeD [of obj k v] by (simp add: get_prop_def)
qed

lemma getActiveBookmakers_subset:
  "set (getActiveBookmakers d) \<subseteq> fst ` set (bookmakerOdds d)"
  by (auto simp: getActiveBookmakers_def)

section \<open>Markets without outcomes, and markets with one\<close>

lemma evaluateCombination_Nil:
  "evaluateCombination marketId outcomeIds incl [] =
     Some \<lparr>market = marketId, outcomes = [], totalImpliedProbability = Fin 0,
            arbitragePercentage = PosInfinity, betDistribution = []\<rparr>"
  by (simp add: evaluateCombination_def num_sub_def signed_infinity_def round_half_away_def
      Let_def)

lemma clamp_positive: "0 < min (max (or_default v d) 1) 5"
  by (simp add: or_default_def)

text \<open>
  C10. \<^verbatim>\<open>generateCombinations\<close> applied to no candidate list at all returns the one
  empty assignment (under the default cap of 10000), and so \<^verbatim>\<open>analyzeMarketTopK\<close>, for
  a market whose outcome set is empty, emits one opportunity: no outcomes, total implied
  probability 0. Its percentage is \<^verbatim>\<open>(1 - 0) / 0 * 100\<close>, that is \<^verbatim>\<open>Infinity\<close>.
\<close>

theorem empty_market_topk:
  "generateCombinations ([] :: 'a list list) (Fin 10000) = [[]]
   \<and> (getMarketOutcomes marketId oddsData activeBookmakers = Inr [] \<longrightarrow>
        analyzeMarketTopK marketId oddsData activeBookmakers options =
          Inr [\<lparr>market = marketId, outcomes = [], totalImpliedProbability = Fin 0,
                arbitragePercentage = PosInfinity, betDistribution = []\<rparr>])"
proof -
  have g: "generateCombinations ([] :: 'b list list) (Fin 10000) = [[]]" for dummy :: 'b
    by (simp add: generateCombinations_def num_gt_def)
  have "analyzeMarketTopK marketId oddsData activeBookmakers options =
          Inr [\<lparr>market = marketId, outcomes = [], totalImpliedProbability = Fin 0,
                arbitragePercentage = PosInfinity, betDistribution = []\<rparr>]"
    if "getMarketOutcomes marketId oddsData activeBookmakers = Inr []"
    using that clamp_positive [of "maxResults options" 5]
    by (simp add: analyzeMarketTopK_def buildTopOutcomeOddsMap_def g evaluateCombinations_def
        evaluateCombination_Nil sort_by_def slice0_def Let_def)
  with g show ?thesis
    by simp
qed

theorem empty_market_topk_witness:
  "getMarketOutcomes ''101'' empty_market_snapshot [''bookmaker1''] = Inr []
   \<and> analyzeMarketTopK ''101'' empty_market_snapshot [''bookmaker1''] default_options =
       Inr [\<lparr>market = ''101'', outcomes = [], totalImpliedProbability = Fin 0,
             arbitragePercentage = PosInfinity, betDistribution = []\<rparr>]"
proof -
  have h: "getMarketOutcomes ''101'' empty_market_snapshot [''bookmaker1''] = Inr []"
    by code_simp
  with empty_market_topk [where ?'a = nat, of "''101''" empty_market_snapshot "[''bookmaker1'']"
      default_options]
  show ?thesis
    by blast
qed

text \<open>Single-best mode skips a market that has fewer than two outcomes.\<close>

lemma analyzeMarket_fewer_than_two:
  "getMarketOutcomes marketId oddsData activeBookmakers = Inr marketOutcomes
   \<Longrightarrow> length marketOutcomes < 2
   \<Longrightarrow> analyzeMarket marketId oddsData activeBookmakers = Inr None"
  by (simp add: analyzeMarket_def)

text \<open>
  C2. A market with exactly one outcome yields nothing in single-best mode, but top-K mode
  has no such guard: on the unit tests' single-outcome data (one bookmaker, one outcome
  priced 1.5) \<^verbatim>\<open>analyzeMarketTopK\<close> emits an opportunity with a 50 percent profit, and
  the whole analysis in top-K mode reports it.
\<close>

theorem single_outcome_topk_emits:
  "getMarketOutcomes ''101'' single_outcome_snapshot
     (getActiveBookmakers single_outcome_snapshot) = Inr [''101'']
   \<and> analyzeMarket ''101'' single_outcome_snapshot
       (getActiveBookmakers single_outcome_snapshot) = Inr None
   \<and> analyzeMarketTopK ''101'' single_outcome_snapshot
       (getActiveBookmakers single_outcome_snapshot) default_options =
       Inr [\<lparr>market = ''101'',
             outcomes = [\<lparr>Selection.outcomeId = Some ''101'', bookmaker = ''bookmaker1'',
                          odds = Fin (3 / 2), impliedProbability = Fin (6667 / 10000)\<rparr>],
             totalImpliedProbability = Fin (6667 / 10000),
             arbitragePercentage = Fin 50,
             betDistribution = []\<rparr>]
   \<and> map_sum id (\<lambda>r. totalOpportunities (analysis r))
       (calculateArbitrageTopK single_outcome_snapshot (Some 3) ''t'') = Inr 1"
  by code_simp

section \<open>Clamping of K and maxResults\<close>

lemma analyzeMarketTopK_topk_10:
  "analyzeMarketTopK marketId oddsData activeBookmakers (options\<lparr>topk := 10\<rparr>) =
   analyzeMarketTopK marketId oddsData activeBookmakers (options\<lparr>topk := 3\<rparr>)"
  by (simp add: analyzeMarketTopK_def or_default_def Let_def split: sum.splits option.splits)

lemma analyzeMarketTopK_maxResults_0:
  "analyzeMarketTopK marketId oddsData activeBookmakers (options\<lparr>maxResults := 0\<rparr>) =
   analyzeMarketTopK marketId oddsData activeBookmakers (options\<lparr>maxResults := 5\<rparr>)"
  by (simp add: analyzeMarketTopK_def or_default_def Let_def split: sum.splits option.splits)

lemma two_bookmaker_lengths:
  "map_sum id length
     (analyzeMarketTopK ''101'' two_bookmaker_snapshot
        (getActiveBookmakers two_bookmaker_snapshot) (default_options\<lparr>maxResults := 0\<rparr>)) = Inr 4
   \<and> map_sum id length
       (analyzeMarketTopK ''101'' two_bookmaker_snapshot
          (getActiveBookmakers two_bookmaker_snapshot) (default_options\<lparr>maxResults := 1\<rparr>)) = Inr 1"
  by code_simp

text \<open>
  C7. \<open>K = 10\<close> behaves as \<open>K = 3\<close> on every input. \<open>maxResults = 0\<close> does not behave
  as \<open>maxResults = 1\<close>: zero is falsy, \<^verbatim>\<open>maxResults || 5\<close> replaces it by 5 before the
  clamp, and it behaves as \<open>maxResults = 5\<close> on every input. On two bookmakers quoting
  2.2 and 2.1 on both outcomes, four opportunities come back for \<open>maxResults = 0\<close> and one
  for \<open>maxResults = 1\<close>.
\<close>

theorem topk_clamped_maxResults_zero_is_five:
  "analyzeMarketTopK marketId oddsData activeBookmakers (options\<lparr>topk := 10\<rparr>) =
     analyzeMarketTopK marketId oddsData activeBookmakers (options\<lparr>topk := 3\<rparr>)
   \<and> analyzeMarketTopK marketId oddsData activeBookmakers (options\<lparr>maxResults := 0\<rparr>) =
     analyzeMarketTopK marketId oddsData activeBookmakers (options\<lparr>maxResults := 5\<rparr>)
   \<and> map_sum id length
       (analyzeMarketTopK ''101'' two_bookmaker_snapshot
          (getActiveBookmakers two_bookmaker_snapshot) (default_options\<lparr>maxResults := 0\<rparr>)) = Inr 4
   \<and> map_sum id length
       (analyzeMarketTopK ''101'' two_bookmaker_snapshot
          (getActiveBookmakers two_bookmaker_snapshot) (default_options\<lparr>maxResults := 1\<rparr>)) = Inr 1"
  using analyzeMarketTopK_topk_10 analyzeMarketTopK_maxResults_0 two_bookmaker_lengths
  by blast

section \<open>Empty input\<close>

lemma getAllMarkets_Nil: "getAllMarkets d [] = Inr []"
  by (simp add: getAllMarkets_def)

lemma getAllMarkets_no_markets:
  assumes "\<forall>(n, b) \<in> set (bookmakerOdds d). markets b = []"
  shows "getAllMarkets d (getActiveBookmakers d) = Inr []"
  unfolding getAllMarkets_def
proof (rule forEach_unchanged)
  fix x
  assume "x \<in> set (getActiveBookmakers d)"
  then have "x \<in> fst ` set (bookmakerOdds d)"
    using getActiveBookmakers_subset by blast
  then obtain b where b: "get_prop (bookmakerOdds d) x = Some b" "(x, b) \<in> set (bookmakerOdds d)"
    by (rule get_prop_member)
  with assms have "markets b = []"
    by auto
  with b show "(case get_prop (bookmakerOdds d) x of
                  None \<Rightarrow> Inl undefined_markets
                | Some bookmaker' \<Rightarrow> Inr (fold set_add (keys (markets bookmaker')) [])) = Inr []"
    by simp
qed

lemma empty_mapping_raises:
  "bookmakerOdds d = [] \<Longrightarrow> calculateArbitrage d now = Inl (calculation_failed no_bookmaker_odds)"
  "bookmakerOdds d = [] \<Longrightarrow>
     calculateArbitrageTopK d k now = Inl (calculation_failed no_bookmaker_odds)"
  by (simp_all add: calculateArbitrage_def calculateArbitrage_body_def
      calculateArbitrageTopK_def calculateArbitrageTopK_body_def)

lemma no_markets_result:
  assumes "bookmakerOdds d \<noteq> []" and "getAllMarkets d (getActiveBookmakers d) = Inr []"
  shows "calculateArbitrage d now = Inr (result_of d [] (getActiveBookmakers d) [] now)"
    and "calculateArbitrageTopK d k now = Inr (result_of d [] (getActiveBookmakers d) [] now)"
  using assms
  by (simp_all add: calculateArbitrage_def calculateArbitrage_body_def
      calculateArbitrageTopK_def calculateArbitrageTopK_body_def Let_def)

text \<open>
  C8, as amended. Both entry points raise \<^verbatim>\<open>Arbitrage calculation failed: No bookmaker
  odds data available...\<close> on a snapshot whose bookmaker mapping is empty. On a non-empty
  mapping with no active bookmaker they return a result with zero analyzed markets, zero
  active bookmakers and zero opportunities; on a non-empty mapping whose bookmakers carry
  no market they return zero analyzed markets and zero opportunities, the active
  bookmakers being counted as they are.
\<close>

theorem empty_input_analysis:
  "(bookmakerOdds d = [] \<longrightarrow>
      calculateArbitrage d now = Inl (calculation_failed no_bookmaker_odds)
      \<and> calculateArbitrageTopK d k now = Inl (calculation_failed no_bookmaker_odds))
   \<and> (bookmakerOdds d \<noteq> [] \<and> getActiveBookmakers d = [] \<longrightarrow>
      calculateArbitrage d now = Inr (result_of d [] [] [] now)
      \<and> calculateArbitrageTopK d k now = Inr (result_of d [] [] [] now))
   \<and> (bookmakerOdds d \<noteq> [] \<and> (\<forall>(n, b) \<in> set (bookmakerOdds d). markets b = []) \<longrightarrow>
      calculateArbitrage d now = Inr (result_of d [] (getActiveBookmakers d) [] now)
      \<and> calculateArbitrageTopK d k now = Inr (result_of d [] (getActiveBookmakers d) [] now))
   \<and> analysis (result_of d [] bs [] now) =
        \<lparr>analyzedMarkets = 0, totalActiveBookmakers = length bs, totalOpportunities = 0,
         opportunities = []\<rparr>"
proof (intro conjI impI)
  assume "bookmakerOdds d \<noteq> [] \<and> getActiveBookmakers d = []"
  then have a: "bookmakerOdds d \<noteq> []" and b: "getActiveBookmakers d = []"
    by simp_all
  from b have "getAllMarkets d (getActiveBookmakers d) = Inr []"
    by (simp add: getAllMarkets_Nil)
  from no_markets_result [OF a this] b
  show "calculateArbitrage d now = Inr (result_of d [] [] [] now)"
    and "calculateArbitrageTopK d k now = Inr (result_of d [] [] [] now)"
    by simp_all
next
  assume "bookmakerOdds d \<noteq> [] \<and> (\<forall>(n, b) \<in> set (bookmakerOdds d). markets b = [])"
  then have a: "bookmakerOdds d \<noteq> []"
    and b: "\<forall>(n, b) \<in> set (bookmakerOdds d). markets b = []"
    by simp_all
  from no_markets_result [OF a getAllMarkets_no_markets [OF b]]
  show "calculateArbitrage d now = Inr (result_of d [] (getActiveBookmakers d) [] now)"
    and "calculateArbitrageTopK d k now = Inr (result_of d [] (getActiveBookmakers d) [] now)"
    by simp_all
qed (simp_all add: empty_mapping_raises result_of_def)

theorem empty_input_analysis_witness:
  "calculateArbitrageTopK no_bookmaker_snapshot None ''t'' =
     Inl (calculation_failed no_bookmaker_odds)
   \<and> calculateArbitrageTopK inactive_snapshot None ''t'' =
       Inr (result_of inactive_snapshot [] [] [] ''t'')
   \<and> calculateArbitrageTopK no_market_snapshot None ''t'' =
       Inr (result_of no_market_snapshot [] [''bookmaker1''] [] ''t'')"
proof -
  have 1: "bookmakerOdds no_bookmaker_snapshot = []"
    by (simp add: no_bookmaker_snapshot_def snapshot_def)
  have 2: "bookmakerOdds inactive_snapshot \<noteq> [] \<and> getActiveBookmakers inactive_snapshot = []"
    by (simp add: inactive_snapshot_def snapshot_def getActiveBookmakers_def entries_def
        is_array_index_def is_digit_def)
  have 3: "bookmakerOdds no_market_snapshot \<noteq> []
           \<and> (\<forall>(n, b) \<in> set (bookmakerOdds no_market_snapshot). markets b = [])"
    by (simp add: no_market_snapshot_def snapshot_def)
  have 4: "getActiveBookmakers no_market_snapshot = [''bookmaker1'']"
    by (simp add: no_market_snapshot_def snapshot_def getActiveBookmakers_def entries_def
        is_array_index_def is_digit_def)
  from empty_input_analysis [of no_bookmaker_snapshot "''t''" None] 1
    empty_input_analysis [of inactive_snapshot "''t''" None] 2
    empty_input_analysis [of no_market_snapshot "''t''" None] 3 4
  show ?thesis
    by simp
qed

text \<open>
  The claim as stated fails on the empty bookmaker mapping, which has no active bookmaker:
  both entry points raise instead of returning a result.
\<close>

theorem empty_mapping_counterexample:
  "getActiveBookmakers no_bookmaker_snapshot = []
   \<and> calculateArbitrage no_bookmaker_snapshot ''t'' =
       Inl (Error ''Arbitrage calculation failed: No bookmaker odds data available. The fixture may have finished or not started yet.'')
   \<and> calculateArbitrageTopK no_bookmaker_snapshot None ''t'' =
       Inl (Error ''Arbitrage calculation failed: No bookmaker odds data available. The fixture may have finished or not started yet.'')"
  by code_simp

section \<open>Which quotes take part in selection\<close>


lemma forEach_invariant:
  assumes "forEach xs f s = Inr s'" and "P s"
    and "\<And>x s t. x \<in> set xs \<Longrightarrow> P s \<Longrightarrow> f x s = Inr t \<Longrightarrow> P t"
  shows "P s'"
  using assms
proof (induction xs arbitrary: s)
  case Nil
  then show ?case by simp
next
  case (Cons x xs)
  from Cons.prems(1) obtain t where t: "f x s = Inr t" "forEach xs f t = Inr s'"
    by (auto split: sum.splits)
  from Cons.prems(3) [of x s t] t Cons.prems(2) have "P t" by simp
  show ?case
  proof (rule Cons.IH [OF t(2) \<open>P t\<close>])
    fix y u v
    assume "y \<in> set xs" "P u" "f y u = Inr v"
    with Cons.prems(3) [of y u v] show "P v" by simp
  qed
qed

lemma set_set_prop: "set (set_prop obj k v) \<subseteq> insert (k, v) (set obj)"
  by (auto simp: set_prop_def)

lemma set_insert_by [simp]: "set (insert_by cmp x ys) = insert x (set ys)"
  by (induction ys) auto

lemma set_sort_by [simp]: "set (sort_by cmp xs) = set xs"
  by (induction xs) (simp_all add: sort_by_def)

lemma set_slice0: "set (slice0 k xs) \<subseteq> set xs"
  by (auto simp: slice0_def dest: in_set_takeD)





lemma top_step:
  assumes inv: "\<forall>c \<in> set allOdds. num_gt (OddsOption.odds c) (Fin 1) \<and> from_active_quote d m oid c"
    and step: "(case player0 d x m oid of Inl e \<Rightarrow> Inl e | Inr None \<Rightarrow> Inr allOdds
       | Inr (Some player) \<Rightarrow>
           if active player \<and> num_gt (price player) (Fin 1)
           then Inr (allOdds @ [\<lparr>OddsOption.bookmaker = x, odds = price player\<rparr>])
           else Inr allOdds) = Inr allOdds'"
  shows "\<forall>c \<in> set allOdds'. num_gt (OddsOption.odds c) (Fin 1) \<and> from_active_quote d m oid c"
  using assms
  by (auto simp: from_active_quote_def split: sum.splits option.splits if_splits)

text \<open>
  What top-K ranking guarantees: every candidate stems from an active quote, and its price
  is greater than 1.
\<close>

lemma buildTopOutcomeOddsMap_candidates:
  assumes "buildTopOutcomeOddsMap marketId oddsData activeBookmakers topK = Inr outcomesOdds"
    and "(k, candidates) \<in> set outcomesOdds" and "c \<in> set candidates"
  shows "num_gt (OddsOption.odds c) (Fin 1) \<and> from_active_quote oddsData marketId k c"
proof -
  let ?Q = "\<lambda>oo. \<forall>(k, candidates) \<in> set oo. \<forall>c \<in> set candidates.
     num_gt (OddsOption.odds c) (Fin 1) \<and> from_active_quote oddsData marketId k c"
  from assms(1) obtain marketOutcomes where
    loop: "forEach marketOutcomes
            (\<lambda>outcomeId' outcomesOdds.
               case forEach activeBookmakers
                      (\<lambda>bookmakerName allOdds.
                         case player0 oddsData bookmakerName marketId outcomeId' of
                           Inl e \<Rightarrow> Inl e
                         | Inr None \<Rightarrow> Inr allOdds
                         | Inr (Some player) \<Rightarrow>
                             if active player \<and> num_gt (price player) (Fin 1)
                             then Inr (allOdds @
                                    [\<lparr>OddsOption.bookmaker = bookmakerName, odds = price player\<rparr>])
                             else Inr allOdds)
                      [] of
                 Inl e \<Rightarrow> Inl e
               | Inr allOdds \<Rightarrow>
                   Inr (set_prop outcomesOdds outcomeId'
                          (slice0 topK
                             (sort_by (\<lambda>a b. num_sub (OddsOption.odds b) (OddsOption.odds a))
                                allOdds))))
            [] = Inr outcomesOdds"
    by (auto simp: buildTopOutcomeOddsMap_def split: sum.splits)
  have "?Q outcomesOdds"
  proof (rule forEach_invariant [OF loop, where P = ?Q])
    show "?Q []" by simp
  next
    fix oid oo oo'
    assume Q: "?Q oo"
      and step: "(case forEach activeBookmakers
                      (\<lambda>bookmakerName allOdds.
                         case player0 oddsData bookmakerName marketId oid of
                           Inl e \<Rightarrow> Inl e
                         | Inr None \<Rightarrow> Inr allOdds
                         | Inr (Some player) \<Rightarrow>
                             if active player \<and> num_gt (price player) (Fin 1)
                             then Inr (allOdds @
                                    [\<lparr>OddsOption.bookmaker = bookmakerName, odds = price player\<rparr>])
                             else Inr allOdds)
                      [] of
                 Inl e \<Rightarrow> Inl e
               | Inr allOdds \<Rightarrow>
                   Inr (set_prop oo oid
                          (slice0 topK
                             (sort_by (\<lambda>a b. num_sub (OddsOption.odds b) (OddsOption.odds a))
                                allOdds)))) = Inr oo'"
    let ?I = "\<lambda>allOdds. \<forall>c \<in> set allOdds.
       num_gt (OddsOption.odds c) (Fin 1) \<and> from_active_quote oddsData marketId oid c"
    from step obtain allOdds where inner: "forEach activeBookmakers
                      (\<lambda>bookmakerName allOdds.
                         case player0 oddsData bookmakerName marketId oid of
                           Inl e \<Rightarrow> Inl e
                         | Inr None \<Rightarrow> Inr allOdds
                         | Inr (Some player) \<Rightarrow>
                             if active player \<and> num_gt (price player) (Fin 1)
                             then Inr (allOdds @
                                    [\<lparr>OddsOption.bookmaker = bookmakerName, odds = price player\<rparr>])
                             else Inr allOdds)
                      [] = Inr allOdds"
      and oo': "oo' = set_prop oo oid
                          (slice0 topK
                             (sort_by (\<lambda>a b. num_sub (OddsOption.odds b) (OddsOption.odds a))
                                allOdds))"
      by (auto split: sum.splits)
    have I: "?I allOdds"
    proof (rule forEach_invariant [OF inner, where P = ?I])
      show "?I []" by simp
    next
      fix x s t
      assume "?I s" and "(case player0 oddsData x marketId oid of
                           Inl e \<Rightarrow> Inl e
                         | Inr None \<Rightarrow> Inr s
                         | Inr (Some player) \<Rightarrow>
                             if active player \<and> num_gt (price player) (Fin 1)
                             then Inr (s @ [\<lparr>OddsOption.bookmaker = x, odds = price player\<rparr>])
                             else Inr s) = Inr t"
      then show "?I t" by (rule top_step)
    qed
    have "set (slice0 topK (sort_by (\<lambda>a b. num_sub (OddsOption.odds b) (OddsOption.odds a)) allOdds))
          \<subseteq> set allOdds"
      using set_slice0 [of topK "sort_by (\<lambda>a b. num_sub (OddsOption.odds b) (OddsOption.odds a)) allOdds"]
      by simp
    with I have "?I (slice0 topK (sort_by (\<lambda>a b. num_sub (OddsOption.odds b) (OddsOption.odds a)) allOdds))"
      by blast
    with Q oo' set_set_prop [of oo oid "slice0 topK (sort_by (\<lambda>a b. num_sub (OddsOption.odds b) (OddsOption.odds a)) allOdds)"]
    show "?Q oo'"
      by auto
  qed
  with assms(2,3) show ?thesis by auto
qed

text \<open>
  C3. Top-K ranking keeps only active quotes priced above 1, but single-best selection
  compares a price with the running best, which starts at 0: an active quote priced 0.5
  that is the only one for its outcome is selected by \<^verbatim>\<open>findBestOdds\<close>, while
  \<^verbatim>\<open>buildTopOutcomeOddsMap\<close> leaves the candidate list of that outcome empty.
\<close>

theorem low_price_selected_by_findBestOdds:
  "getMarketOutcomes ''101'' low_price_snapshot (getActiveBookmakers low_price_snapshot) = Inr [''101'', ''102'']
   \<and> findBestOdds ''101'' [''101'', ''102''] low_price_snapshot (getActiveBookmakers low_price_snapshot) =
       Inr [(''101'', offer ''bookmaker1'' (1 / 2)), (''102'', offer ''bookmaker1'' 3)]
   \<and> buildTopOutcomeOddsMap ''101'' low_price_snapshot (getActiveBookmakers low_price_snapshot) 3 =
       Inr [(''101'', []), (''102'', [offer ''bookmaker1'' 3])]
   \<and> \<not> num_gt (Fin (1 / 2)) (Fin 1)"
  by code_simp

section \<open>The threshold of the evaluator\<close>
















section \<open>The reported percentage\<close>











section \<open>Rounding arithmetic\<close>


lemma round_half_up_error: "\<bar>round_half_up d x - x\<bar> \<le> 1 / (2 * 10 ^ d)"
proof -
  define y where "y = x * 10 ^ d + 1 / 2"
  define k where "k = \<lfloor>y\<rfloor>"
  have k: "of_int k \<le> y" "y < of_int k + 1"
    unfolding k_def by linarith+
  have eq: "round_half_up d x - x = (of_int k - y + 1 / 2) / 10 ^ d"
    by (simp add: round_half_up_def y_def k_def field_simps)
  from k have "\<bar>of_int k - y + 1 / 2\<bar> \<le> 1 / 2"
    by linarith
  then have "\<bar>of_int k - y + 1 / 2\<bar> / 10 ^ d \<le> (1 / 2) / 10 ^ d"
    by (rule divide_right_mono) simp
  then have "\<bar>(of_int k - y + 1 / 2) / 10 ^ d\<bar> \<le> 1 / (2 * 10 ^ d)"
    by simp
  with eq show ?thesis
    by simp
qed

lemma round_half_up_multiple: "round_half_up d (of_int k / 10 ^ d) = of_int k / 10 ^ d"
proof -
  have "\<lfloor>(of_int k :: rat) + 1 / 2\<rfloor> = k"
    by linarith
  then show ?thesis
    by (simp add: round_half_up_def)
qed

lemma sum_round_multiple:
  "\<exists>k :: int. sum_list (map (\<lambda>x. round_half_up d (f x)) xs) = of_int k / 10 ^ d"
proof (induction xs)
  case Nil
  show ?case
    by (rule exI [of _ 0]) simp
next
  case (Cons x xs)
  then obtain k where k: "sum_list (map (\<lambda>x. round_half_up d (f x)) xs) = of_int k / 10 ^ d"
    by blast
  have "round_half_up d (f x) + of_int k / 10 ^ d =
        of_int (\<lfloor>f x * 10 ^ d + 1 / 2\<rfloor> + k) / 10 ^ d"
    by (simp add: round_half_up_def add_divide_distrib)
  with k have "sum_list (map (\<lambda>x. round_half_up d (f x)) (x # xs)) =
               of_int (\<lfloor>f x * 10 ^ d + 1 / 2\<rfloor> + k) / 10 ^ d"
    by simp
  then show ?case
    by (rule exI)
qed

lemma round_sum_round:
  "round_half_up d (sum_list (map (\<lambda>x. round_half_up d (f x)) xs)) =
   sum_list (map (\<lambda>x. round_half_up d (f x)) xs)"
proof -
  obtain k :: int where "sum_list (map (\<lambda>x. round_half_up d (f x)) xs) = of_int k / 10 ^ d"
    using sum_round_multiple by blast
  then show ?thesis
    by (simp only: round_half_up_multiple)
qed

lemma sum_list_error:
  fixes f g :: "'a \<Rightarrow> rat"
  assumes "\<forall>x \<in> set xs. \<bar>f x - g x\<bar> \<le> e"
  shows "\<bar>sum_list (map f xs) - sum_list (map g xs)\<bar> \<le> of_nat (length xs) * e"
  using assms
proof (induction xs)
  case Nil
  then show ?case by simp
next
  case (Cons x xs)
  then have 1: "\<bar>f x - g x\<bar> \<le> e"
    and 2: "\<bar>sum_list (map f xs) - sum_list (map g xs)\<bar> \<le> of_nat (length xs) * e"
    by simp_all
  have "sum_list (map f (x # xs)) - sum_list (map g (x # xs)) =
        (f x - g x) + (sum_list (map f xs) - sum_list (map g xs))"
    by simp
  moreover have "of_nat (length (x # xs)) * e = e + of_nat (length xs) * e"
    by (simp add: algebra_simps)
  ultimately show ?case
    using 1 2 by linarith
qed

section \<open>The two single-best evaluators\<close>


lemma positive_finiteE:
  assumes "positive_finite x"
  obtains p where "x = Fin p" and "0 < p"
  using assms by (cases x) auto

text \<open>The implied probability of a positive finite price is finite, rounded or not.\<close>

lemma rounded_item_finite:
  "positive_finite x \<Longrightarrow>
     roundTo4 (num_div (Fin 1) x) = Fin (round_half_up 4 (1 / rat_of x))"
  by (erule positive_finiteE) (simp add: roundTo4_def)

lemma exact_item_finite:
  "positive_finite x \<Longrightarrow> num_div (Fin 1) x = Fin (1 / rat_of x)"
  by (erule positive_finiteE) simp

lemma foldl_add_values:
  assumes "\<forall>x \<in> set xs. g x = Fin (v x)"
  shows "foldl (\<lambda>sum x. num_add sum (g x)) (Fin a) xs = Fin (a + sum_list (map v xs))"
  using assms by (induction xs arbitrary: a) (simp_all add: add.assoc)

lemma exact_total:
  assumes "\<forall>(k, selected) \<in> set best. positive_finite (OddsOption.odds selected)"
  shows "implied_total (map (\<lambda>(k, selected). OddsOption.odds selected) (entries best)) =
           Fin (sum_list (map (\<lambda>(k, selected). 1 / rat_of (OddsOption.odds selected)) (entries best)))"
proof -
  from assms have "\<forall>x \<in> set (entries best).
      num_div (Fin 1) (OddsOption.odds (snd x)) = Fin (1 / rat_of (OddsOption.odds (snd x)))"
    by (auto simp: exact_item_finite)
  from foldl_add_values [OF this, of 0] show ?thesis
    by (simp add: implied_total_def foldl_map case_prod_unfold)
qed

lemma unrounded_exists:
  assumes "\<forall>(k, selected) \<in> set best. positive_finite (OddsOption.odds selected)"
    and "implied_total (map (\<lambda>(k, selected). OddsOption.odds selected) (entries best)) = Fin s"
  shows "(calculateArbitrageForMarket_unrounded m best \<noteq> None) = (s < 1)"
proof -
  have "foldl (\<lambda>sum item. num_add sum (impliedProbability item)) (Fin 0)
          (map (\<lambda>(outcomeId', data).
                   \<lparr>Selection.outcomeId = Some outcomeId',
                    bookmaker = OddsOption.bookmaker data,
                    odds = OddsOption.odds data,
                    impliedProbability = num_div (Fin 1) (OddsOption.odds data)\<rparr>)
                (entries best)) =
        implied_total (map (\<lambda>(k, selected). OddsOption.odds selected) (entries best))"
    by (simp add: implied_total_def foldl_map case_prod_unfold)
  with assms(2) show ?thesis
    by (auto simp: calculateArbitrageForMarket_unrounded_def Let_def num_ge_def)
qed

lemma rounded_exists:
  assumes H: "\<forall>(k, selected) \<in> set best. positive_finite (OddsOption.odds selected)"
  shows "(calculateArbitrageForMarket m best \<noteq> None) =
           (sum_list (map (\<lambda>x. round_half_up 4 (1 / rat_of (OddsOption.odds (snd x)))) (entries best)) < 1)"
proof -
  let ?v = "\<lambda>x. round_half_up 4 (1 / rat_of (OddsOption.odds (snd x)))"
  from H have "\<forall>x \<in> set (entries best).
      roundTo4 (num_div (Fin 1) (OddsOption.odds (snd x))) = Fin (?v x)"
    by (auto simp: rounded_item_finite)
  from foldl_add_values [OF this, of 0]
  have "foldl (\<lambda>sum item. num_add sum (impliedProbability item)) (Fin 0)
          (map (\<lambda>(outcomeId', data).
                   \<lparr>Selection.outcomeId = Some outcomeId',
                    bookmaker = OddsOption.bookmaker data,
                    odds = OddsOption.odds data,
                    impliedProbability = roundTo4 (num_div (Fin 1) (OddsOption.odds data))\<rparr>)
                (entries best)) = Fin (sum_list (map ?v (entries best)))"
    by (simp add: foldl_map case_prod_unfold)
  then show ?thesis
    using round_sum_round [of 4 "\<lambda>x. 1 / rat_of (OddsOption.odds (snd x))" "entries best"]
    by (auto simp: calculateArbitrageForMarket_def Let_def num_ge_def roundTo4_def)
qed

lemma rounded_total_close:
  "\<bar>sum_list (map (\<lambda>x. round_half_up 4 (1 / rat_of (OddsOption.odds (snd x)))) (entries best))
    - sum_list (map (\<lambda>x. 1 / rat_of (OddsOption.odds (snd x))) (entries best))\<bar>
   \<le> of_nat (length best) / 20000"
proof -
  have "\<forall>x \<in> set (entries best).
      \<bar>round_half_up 4 (1 / rat_of (OddsOption.odds (snd x))) - 1 / rat_of (OddsOption.odds (snd x))\<bar>
      \<le> 1 / 20000"
    using round_half_up_error [of 4] by simp
  from sum_list_error [OF this] show ?thesis
    by simp
qed

lemma variants_agree_away_from_one:
  assumes H: "\<forall>(k, selected) \<in> set best. positive_finite (OddsOption.odds selected)"
    and s: "implied_total (map (\<lambda>(k, selected). OddsOption.odds selected) (entries best)) = Fin s"
  shows "s + of_nat (length best) / 20000 < 1 \<Longrightarrow>
           calculateArbitrageForMarket m best \<noteq> None
           \<and> calculateArbitrageForMarket_unrounded m best \<noteq> None"
    and "1 + of_nat (length best) / 20000 \<le> s \<Longrightarrow>
           calculateArbitrageForMarket m best = None
           \<and> calculateArbitrageForMarket_unrounded m best = None"
proof -
  from exact_total [OF H] s
  have s': "s = sum_list (map (\<lambda>x. 1 / rat_of (OddsOption.odds (snd x))) (entries best))"
    by (simp add: case_prod_unfold)
  note c = rounded_total_close [of best, folded s']
  note r = rounded_exists [OF H, of m]
  note u = unrounded_exists [OF H s, of m]
  have n: "(0 :: rat) \<le> of_nat (length best) / 20000"
    by simp
  show "calculateArbitrageForMarket m best \<noteq> None
        \<and> calculateArbitrageForMarket_unrounded m best \<noteq> None"
    if "s + of_nat (length best) / 20000 < 1"
    using that c r u n by (simp only:) linarith
  show "calculateArbitrageForMarket m best = None
        \<and> calculateArbitrageForMarket_unrounded m best = None"
    if "1 + of_nat (length best) / 20000 \<le> s"
  proof -
    from that c have "\<not> sum_list (map (\<lambda>x. round_half_up 4 (1 / rat_of (OddsOption.odds (snd x)))) (entries best)) < 1"
      by linarith
    moreover from that n have "\<not> s < 1"
      by linarith
    ultimately show ?thesis
      using r u by blast
  qed
qed

lemma variants_same_selection:
  assumes "calculateArbitrageForMarket m best = Some opp"
    and "calculateArbitrageForMarket_unrounded m best = Some opp'"
  shows "market opp = market opp'"
    and "map Selection.outcomeId (outcomes opp) = map Selection.outcomeId (outcomes opp')"
    and "map Selection.bookmaker (outcomes opp) = map Selection.bookmaker (outcomes opp')"
    and "map Selection.odds (outcomes opp) = map Selection.odds (outcomes opp')"
    and "map impliedProbability (outcomes opp) =
           map (\<lambda>x. roundTo4 (impliedProbability x)) (outcomes opp')"
  using assms
  by (auto simp: calculateArbitrageForMarket_def calculateArbitrageForMarket_unrounded_def
      Let_def case_prod_unfold comp_def split: if_splits)

text \<open>
  C9, as amended. The two single-best evaluators are not equivalent. Whenever both produce
  an opportunity, the two opportunities name the same market and list the same outcome
  ids, bookmakers and odds in the same order, and the implied probabilities of
  \<^verbatim>\<open>core.ts\<close> are those of the earlier evaluator rounded to 4 decimals. For a mapping
  of \<open>n\<close> positive finite prices whose total implied probability is \<open>s\<close>, both
  produce an opportunity when \<open>s + n / 20000 < 1\<close> and neither does when
  \<open>1 + n / 20000 \<le> s\<close>.
\<close>

theorem evaluator_variants_agreement:
  "(calculateArbitrageForMarket marketId bestOdds = Some opportunity
    \<and> calculateArbitrageForMarket_unrounded marketId bestOdds = Some opportunity' \<longrightarrow>
      market opportunity = market opportunity'
      \<and> map Selection.outcomeId (outcomes opportunity) =
          map Selection.outcomeId (outcomes opportunity')
      \<and> map Selection.bookmaker (outcomes opportunity) =
          map Selection.bookmaker (outcomes opportunity')
      \<and> map Selection.odds (outcomes opportunity) = map Selection.odds (outcomes opportunity')
      \<and> map impliedProbability (outcomes opportunity) =
          map (\<lambda>x. roundTo4 (impliedProbability x)) (outcomes opportunity'))
   \<and> ((\<forall>(k, selected) \<in> set bestOdds. positive_finite (OddsOption.odds selected))
      \<and> implied_total (map (\<lambda>(k, selected). OddsOption.odds selected) (entries bestOdds)) = Fin s
      \<longrightarrow>
        (s + of_nat (length bestOdds) / 20000 < 1 \<longrightarrow>
           calculateArbitrageForMarket marketId bestOdds \<noteq> None
           \<and> calculateArbitrageForMarket_unrounded marketId bestOdds \<noteq> None)
        \<and> (1 + of_nat (length bestOdds) / 20000 \<le> s \<longrightarrow>
           calculateArbitrageForMarket marketId bestOdds = None
           \<and> calculateArbitrageForMarket_unrounded marketId bestOdds = None))"
  using variants_same_selection [of marketId bestOdds opportunity opportunity']
    variants_agree_away_from_one [of bestOdds s marketId]
  by blast

theorem evaluator_variants_agreement_witness:
  "calculateArbitrageForMarket ''101'' selection_22 = Some single_best_example
   \<and> calculateArbitrageForMarket_unrounded ''101'' selection_22 = Some unrounded_example
   \<and> map impliedProbability (outcomes single_best_example) =
       map (\<lambda>x. roundTo4 (impliedProbability x)) (outcomes unrounded_example)
   \<and> implied_total (map (\<lambda>(k, selected). OddsOption.odds selected) (entries selection_15)) =
       Fin (4 / 3)
   \<and> calculateArbitrageForMarket ''101'' selection_15 = None
   \<and> calculateArbitrageForMarket_unrounded ''101'' selection_15 = None"
proof -
  have 1: "calculateArbitrageForMarket ''101'' selection_22 = Some single_best_example"
    by code_simp
  have 2: "calculateArbitrageForMarket_unrounded ''101'' selection_22 = Some unrounded_example"
    by code_simp
  have 3: "\<forall>(k, selected) \<in> set selection_22. positive_finite (OddsOption.odds selected)"
    by (simp add: selection_22_def offer_def)
  have 4: "implied_total (map (\<lambda>(k, selected). OddsOption.odds selected) (entries selection_22)) =
             Fin (10 / 11)"
    by code_simp
  have 5: "(10 / 11 :: rat) + of_nat (length selection_22) / 20000 < 1"
    by (simp add: selection_22_def)
  have 6: "\<forall>(k, selected) \<in> set selection_15. positive_finite (OddsOption.odds selected)"
    by (simp add: selection_15_def offer_def)
  have 7: "implied_total (map (\<lambda>(k, selected). OddsOption.odds selected) (entries selection_15)) =
             Fin (4 / 3)"
    by code_simp
  have 8: "1 + of_nat (length selection_15) / 20000 \<le> (4 / 3 :: rat)"
    by (simp add: selection_15_def)
  note a = evaluator_variants_agreement [of "''101''" selection_22 single_best_example
      unrounded_example "10 / 11"]
  note b = evaluator_variants_agreement [of "''101''" selection_15 single_best_example
      unrounded_example "4 / 3"]
  from a 1 2 have c: "map impliedProbability (outcomes single_best_example) =
      map (\<lambda>x. roundTo4 (impliedProbability x)) (outcomes unrounded_example)"
    by blast
  from a 3 4 5 have "calculateArbitrageForMarket ''101'' selection_22 \<noteq> None"
    by blast
  from b 6 7 8 have d: "calculateArbitrageForMarket ''101'' selection_15 = None
      \<and> calculateArbitrageForMarket_unrounded ''101'' selection_15 = None"
    by blast
  from 1 2 c 7 d show ?thesis
    by blast
qed

text \<open>
  The claim as stated fails: on three outcomes priced 2.9999 the total implied probability
  is above 1 and the earlier evaluator reports nothing, while \<^verbatim>\<open>core.ts\<close> rounds each
  implied probability down to 0.3333 and reports an opportunity; and on two outcomes priced
  2.2, where both report one, the percentages are 10.01 and 10.
\<close>

theorem evaluator_variants_counterexample:
  "calculateArbitrageForMarket ''101'' selection_near_one \<noteq> None
   \<and> calculateArbitrageForMarket_unrounded ''101'' selection_near_one = None
   \<and> map_option arbitragePercentage (calculateArbitrageForMarket ''101'' selection_22) =
       Some (Fin (1001 / 100))
   \<and> map_option arbitragePercentage (calculateArbitrageForMarket_unrounded ''101'' selection_22) =
       Some (Fin 10)"
  by code_simp


section \<open>The stake distribution\<close>

















end
